theory Spec2Isabelle
  imports Main
begin

section \<open>Python values and the operations the processor applies to them\<close>

text \<open>
  The vendor gateway hands back decoded JSON. The processor subscripts it with string
  keys, takes element 0 of a list, calls \<open>.get\<close> on a dictionary and tests values for
  truth. Each of these raises on the wrong shape, so each is a function into
  \<open>exn + _\<close>.
\<close>

datatype pyval =
    PNone
  | PBool bool
  | PInt int
  | PStr string
  | PList "pyval list"
  | PDict "(string \<times> pyval) list"

type_synonym pydict = "(string \<times> pyval) list"

text \<open>
  \<open>SkipRequest\<close> and \<open>FailRequest\<close> carry the message they were built with;
  \<open>PyException\<close> is a bare \<open>Exception(arg)\<close>; the others are the built-in errors of
  the interpreter.
\<close>

datatype exn =
    SkipRequest pyval
  | FailRequest pyval
  | InquireRequest pyval
  | PyException pyval
  | KeyError pyval
  | IndexError
  | TypeError
  | AttributeError

fun truthy :: "pyval \<Rightarrow> bool" where
  "truthy PNone = False"
| "truthy (PBool b) = b"
| "truthy (PInt i) = (i \<noteq> 0)"
| "truthy (PStr s) = (s \<noteq> [])"
| "truthy (PList xs) = (xs \<noteq> [])"
| "truthy (PDict d) = (d \<noteq> [])"

text \<open>
  The constructors of the SDK's two request exceptions, as the processor calls them
  with a value read from the vendor's result: \<open>SkipRequest(message)\<close> stores
  \<open>message or 'Request skipped'\<close> and \<open>FailRequest(message)\<close> stores
  \<open>message or 'Request failed'\<close>, so a message that is \<open>None\<close> or empty is replaced
  by the default text.
\<close>

definition skip_request :: "pyval \<Rightarrow> exn" where
  "skip_request message =
     SkipRequest (if truthy message then message else PStr ''Request skipped'')"

definition fail_request :: "pyval \<Rightarrow> exn" where
  "fail_request message =
     FailRequest (if truthy message then message else PStr ''Request failed'')"

text \<open>\<open>d[k]\<close> on a dictionary: a missing key raises \<open>KeyError\<close>.\<close>

definition py_getitem :: "pydict \<Rightarrow> string \<Rightarrow> exn + pyval" where
  "py_getitem d k = (case map_of d k of None \<Rightarrow> Inl (KeyError (PStr k)) | Some v \<Rightarrow> Inr v)"

text \<open>\<open>k in d\<close> on a dictionary.\<close>

definition py_contains :: "string \<Rightarrow> pydict \<Rightarrow> bool" where
  "py_contains k d = (map_of d k \<noteq> None)"

text \<open>
  \<open>x[0]\<close>: the first element of a list, the first character of a string, \<open>IndexError\<close>
  when either is empty, \<open>KeyError\<close> on a dictionary (whose keys are strings), and
  \<open>TypeError\<close> on a value that cannot be subscripted.
\<close>

fun py_index0 :: "pyval \<Rightarrow> exn + pyval" where
  "py_index0 (PList []) = Inl IndexError"
| "py_index0 (PList (v # vs)) = Inr v"
| "py_index0 (PStr []) = Inl IndexError"
| "py_index0 (PStr (c # cs)) = Inr (PStr [c])"
| "py_index0 (PDict d) = Inl (KeyError (PInt 0))"
| "py_index0 v = Inl TypeError"

text \<open>\<open>x.get(k)\<close>: \<open>None\<close> for a missing key; only dictionaries have the method.\<close>

fun py_get :: "pyval \<Rightarrow> string \<Rightarrow> exn + pyval" where
  "py_get (PDict d) k = Inr (case map_of d k of None \<Rightarrow> PNone | Some v \<Rightarrow> v)"
| "py_get v k = Inl AttributeError"

text \<open>\<open>s + x\<close> with \<open>s\<close> a string: \<open>TypeError\<close> unless \<open>x\<close> is a string too.\<close>

fun py_add_str :: "string \<Rightarrow> pyval \<Rightarrow> exn + string" where
  "py_add_str s (PStr t) = Inr (s @ t)"
| "py_add_str s v = Inl TypeError"

text \<open>\<open>len(x)\<close>.\<close>

fun py_len :: "pyval \<Rightarrow> exn + nat" where
  "py_len (PStr s) = Inr (length s)"
| "py_len (PList xs) = Inr (length xs)"
| "py_len (PDict d) = Inr (length d)"
| "py_len v = Inl TypeError"

text \<open>
  \<open>s.lower()\<close> on the ASCII letters: \<open>A\<close> to \<open>Z\<close> (codes 65 to 90) get the bit of value
  32 set; other bytes are kept.
\<close>

definition lower_char :: "char \<Rightarrow> char" where
  "lower_char c =
     (if 65 \<le> (of_char c :: nat) \<and> (of_char c :: nat) \<le> 90
      then Char (digit0 c) (digit1 c) (digit2 c) (digit3 c) (digit4 c) True (digit6 c) (digit7 c)
      else c)"

definition py_lower :: "string \<Rightarrow> string" where
  "py_lower s = map lower_char s"

section \<open>Requests, collaborators and effects\<close>

record item =
  quantity :: int
  old_quantity :: int

text \<open>
  The fields of the fulfillment request the processor reads: \<open>req.id\<close>, \<open>req.type\<close>,
  \<open>req.marketplace.id\<close>, \<open>req.asset.configuration\<close>, the asset's parameters by id and
  \<open>req.asset.items\<close>.
\<close>

record request =
  req_id :: string
  req_type :: string
  marketplace_id :: string
  asset_configuration :: pydict
  asset_params :: "(string \<times> pyval) list"
  asset_items :: "item list"

datatype vendor_op =
    CreateSubscription
  | ChangeSubscription
  | CancelSubscription
  | SuspendSubscription
  | ResumeSubscription

text \<open>
  What the processor does to the outside world, in order: a call of the vendor gateway
  (operation, payload, subscription id) and a call of \<open>automation.update_parameters\<close>
  (request id, parameters).
\<close>

datatype event =
    VendorCall vendor_op pydict "pyval option"
  | UpdateParameters string "(string \<times> pyval) list"

datatype artifact = ActivationTemplateResponse pyval

text \<open>
  The collaborators that are imported by \<open>product_fulfillment.py\<close> and are parameters
  here: the five operations of \<open>APIClient\<close> (credential lookup and client construction
  included; \<open>Inl\<close> is an exception raised by them), \<open>Utils.get_status_code\<close>,
  \<open>Utils.get_activation_template\<close>, \<open>datetime.now()\<close>, the message templates of
  \<open>Message.Shared\<close> (a template applied to its argument), the prefixes of \<open>Globals\<close>,
  and \<open>str\<close> on a value and on an exception. The texts of \<open>Message.Shared\<close> are
  fixed, non-empty messages, so an exception built from one of them carries it as it is.
\<close>

record env =
  api_create_subscription :: "pydict \<Rightarrow> exn + pydict"
  api_change_subscription :: "pydict \<Rightarrow> pyval \<Rightarrow> exn + pydict"
  api_cancel_subscription :: "pydict \<Rightarrow> pyval \<Rightarrow> exn + pydict"
  api_suspend_subscription :: "pydict \<Rightarrow> pyval \<Rightarrow> exn + pydict"
  api_resume_subscription :: "pydict \<Rightarrow> pyval \<Rightarrow> exn + pydict"
  get_status_code :: "pydict \<Rightarrow> string"
  get_activation_template :: "pydict \<Rightarrow> string \<Rightarrow> string \<Rightarrow> exn + pyval"
  now :: pyval
  ACTIVATING_TEMPLATE_ERROR :: "string \<Rightarrow> string"
  EMPTY_ACTIVATION_TILE :: "string \<Rightarrow> string"
  NOT_ALLOWED_DOWNSIZE :: string
  SKIP_ACTION :: string
  FAIL_ACTION :: string
  py_str :: "pyval \<Rightarrow> string"
  exn_str :: "exn \<Rightarrow> string"

text \<open>
  \<open>req.asset.get_param_by_id(pid).value\<close>: the SDK returns \<open>None\<close> for an unknown id,
  and \<open>.value\<close> on \<open>None\<close> raises \<open>AttributeError\<close>.
\<close>

definition get_param_value :: "request \<Rightarrow> string \<Rightarrow> exn + pyval" where
  "get_param_value req pid =
     (case map_of (asset_params req) pid of None \<Rightarrow> Inl AttributeError | Some v \<Rightarrow> Inr v)"

definition update_parameters :: "string \<Rightarrow> (string \<times> pyval) list \<Rightarrow> event list \<Rightarrow> event list" where
  "update_parameters rid ps tr = tr @ [UpdateParameters rid ps]"

text \<open>
  Modelled from the spec: \<open>Utils.is_downsize_request\<close> is not among the sources. The
  spec's downsize guard: a request is a downsize if any line item's requested quantity
  is strictly less than its currently provisioned quantity.
\<close>

definition is_downsize_request :: "item list \<Rightarrow> bool" where
  "is_downsize_request items = list_ex (\<lambda>it. quantity it < old_quantity it) items"

section \<open>Activation template\<close>

text \<open>\<open>activate_template\<close> (lines 497-511).\<close>

definition activate_template :: "env \<Rightarrow> request \<Rightarrow> string \<Rightarrow> exn + artifact" where
  "activate_template env req template_type =
     (case get_activation_template env (asset_configuration req) (marketplace_id req) template_type of
        Inl e \<Rightarrow> Inl e
      | Inr tid \<Rightarrow>
          (case py_len tid of
             Inl e \<Rightarrow> Inl e
           | Inr n \<Rightarrow>
               if n = 0
               then Inl (SkipRequest (PStr (EMPTY_ACTIVATION_TILE env (marketplace_id req))))
               else Inr (ActivationTemplateResponse tid)))"

text \<open>
  The \<open>try\<close> block that ends each of the five handlers (lines 73-87, 196-210, 294-308,
  365-379 and 437-451; the five differ in their log lines only): a \<open>SkipRequest\<close> is
  raised again, a \<open>FailRequest\<close> and any other exception become a \<open>SkipRequest\<close> with
  the template-error message.
\<close>

definition template_or_skip :: "env \<Rightarrow> request \<Rightarrow> string \<Rightarrow> exn + artifact" where
  "template_or_skip env req template_type =
     (case activate_template env req template_type of
        Inr a \<Rightarrow> Inr a
      | Inl (SkipRequest m) \<Rightarrow> Inl (SkipRequest m)
      | Inl (FailRequest m) \<Rightarrow>
          Inl (SkipRequest (PStr (ACTIVATING_TEMPLATE_ERROR env (py_str env m))))
      | Inl ex \<Rightarrow>
          Inl (SkipRequest (PStr (ACTIVATING_TEMPLATE_ERROR env (exn_str env ex)))))"

section \<open>Purchase\<close>

definition parse_subscription :: "request \<Rightarrow> pydict" where
  "parse_subscription req = []"

text \<open>
  The \<open>else\<close> branch of \<open>_create_subscription\<close> (lines 121-130). Every path through it
  raises; the value is the exception raised.
\<close>

definition create_error_branch :: "env \<Rightarrow> pydict \<Rightarrow> exn" where
  "create_error_branch env subscription_info =
     (case py_getitem subscription_info ''errors'' of
        Inl e \<Rightarrow> e
      | Inr errors \<Rightarrow>
          (case py_index0 errors of
             Inl e \<Rightarrow> e
           | Inr err0 \<Rightarrow>
               (case py_get err0 ''errorCode'' of
                  Inl e \<Rightarrow> e
                | Inr code \<Rightarrow>
                    (case py_get err0 ''errorMessage'' of
                       Inl e \<Rightarrow> e
                     | Inr msg \<Rightarrow>
                         if code = PNone \<or> code = PStr ''UNKNOWN_ERROR''
                         then (case py_add_str (SKIP_ACTION env) msg of
                                 Inl e \<Rightarrow> e
                               | Inr line \<Rightarrow> skip_request msg)
                         else fail_request msg))))"

text \<open>
  \<open>_create_subscription\<close> (lines 91-137). The handler \<open>except FailRequest\<close> logs and
  raises the same exception again, so an exception leaves as it was raised.
\<close>

definition do_create_subscription ::
  "env \<Rightarrow> request \<Rightarrow> event list \<Rightarrow> event list \<times> (exn + pydict)" where
  "do_create_subscription env req tr =
     (let data = parse_subscription req;
          tr1 = tr @ [VendorCall CreateSubscription data None]
      in case api_create_subscription env data of
           Inl e \<Rightarrow> (tr1, Inl e)
         | Inr subscription_info \<Rightarrow>
             (case py_getitem subscription_info ''tenantId'' of
                Inl e \<Rightarrow> (tr1, Inl e)
              | Inr tenant \<Rightarrow>
                  if truthy tenant
                  then (update_parameters (req_id req) [(''subscriptionId'', tenant)] tr1,
                        Inr subscription_info)
                  else (tr1, Inl (create_error_branch env subscription_info))))"

definition purchase :: "env \<Rightarrow> request \<Rightarrow> event list \<Rightarrow> event list \<times> (exn + artifact)" where
  "purchase env req tr =
     (case do_create_subscription env req tr of
        (tr1, Inl e) \<Rightarrow> (tr1, Inl e)
      | (tr1, Inr subscription_info) \<Rightarrow> (tr1, template_or_skip env req ''activationTemplate''))"

section \<open>Change\<close>

text \<open>\<open>check_if_downsize\<close> (lines 213-218).\<close>

definition check_if_downsize :: "env \<Rightarrow> request \<Rightarrow> exn + unit" where
  "check_if_downsize env req =
     (if is_downsize_request (asset_items req)
      then Inl (FailRequest (PStr (NOT_ALLOWED_DOWNSIZE env)))
      else Inr ())"

text \<open>
  The branch of \<open>_check_update_response\<close> taken when the result has an \<open>errors\<close> key
  (lines 266-275). Every path through it raises.
\<close>

definition update_error_branch :: "env \<Rightarrow> pydict \<Rightarrow> exn" where
  "update_error_branch env operation_result =
     (case py_getitem operation_result ''errors'' of
        Inl e \<Rightarrow> e
      | Inr errors \<Rightarrow>
          (case py_index0 errors of
             Inl e \<Rightarrow> e
           | Inr err0 \<Rightarrow>
               (case py_get err0 ''errorCode'' of
                  Inl e \<Rightarrow> e
                | Inr code \<Rightarrow>
                    (case py_get err0 ''errorMessage'' of
                       Inl e \<Rightarrow> e
                     | Inr msg \<Rightarrow>
                         if code = PNone \<or> code = PStr ''UNKNOWN_ERROR''
                         then skip_request msg
                         else (case py_add_str (FAIL_ACTION env) msg of
                                 Inl e \<Rightarrow> e
                               | Inr line \<Rightarrow> fail_request msg)))))"

text \<open>\<open>_check_update_response\<close> (lines 252-279).\<close>

definition check_update_response ::
  "env \<Rightarrow> pydict \<Rightarrow> request \<Rightarrow> event list \<Rightarrow> event list \<times> (exn + unit)" where
  "check_update_response env operation_result req tr =
     (if py_lower (get_status_code env operation_result) = ''success''
      then (update_parameters (req_id req) [(''creationDate'', now env)] tr, Inr ())
      else if py_contains ''errors'' operation_result
      then (tr, Inl (update_error_branch env operation_result))
      else if py_contains ''error'' operation_result
      then (case py_getitem operation_result ''error'' of
              Inl e \<Rightarrow> (tr, Inl e)
            | Inr v \<Rightarrow> (tr, Inl (PyException v)))
      else (tr, Inr ()))"

text \<open>\<open>_change_subscription\<close> (lines 222-249).\<close>

definition do_change_subscription ::
  "env \<Rightarrow> request \<Rightarrow> event list \<Rightarrow> event list \<times> (exn + unit)" where
  "do_change_subscription env req tr =
     (case get_param_value req ''subscriptionId'' of
        Inl e \<Rightarrow> (tr, Inl e)
      | Inr subscriptionId \<Rightarrow>
          (let data = parse_subscription req;
               tr1 = tr @ [VendorCall ChangeSubscription data (Some subscriptionId)]
           in case api_change_subscription env data subscriptionId of
                Inl e \<Rightarrow> (tr1, Inl e)
              | Inr operation_result \<Rightarrow> check_update_response env operation_result req tr1))"

text \<open>\<open>change\<close> (lines 181-210).\<close>

definition change :: "env \<Rightarrow> request \<Rightarrow> event list \<Rightarrow> event list \<times> (exn + artifact)" where
  "change env req tr =
     (case check_if_downsize env req of
        Inl e \<Rightarrow> (tr, Inl e)
      | Inr u \<Rightarrow>
          (case do_change_subscription env req tr of
             (tr1, Inl e) \<Rightarrow> (tr1, Inl e)
           | (tr1, Inr u1) \<Rightarrow> (tr1, template_or_skip env req ''activationTemplate'')))"

section \<open>Cancel, suspend, resume\<close>

definition parse_cancel :: "request \<Rightarrow> pydict" where
  "parse_cancel req = []"

definition parse_suspend :: "request \<Rightarrow> pydict" where
  "parse_suspend req = []"

definition parse_resume :: "request \<Rightarrow> pydict" where
  "parse_resume req = []"

text \<open>\<open>_cancel_subscription\<close> (lines 312-337): the vendor's result is returned as it is.\<close>

definition do_cancel_subscription ::
  "env \<Rightarrow> request \<Rightarrow> event list \<Rightarrow> event list \<times> (exn + pydict)" where
  "do_cancel_subscription env req tr =
     (case get_param_value req ''subscriptionId'' of
        Inl e \<Rightarrow> (tr, Inl e)
      | Inr subscriptionId \<Rightarrow>
          (let data = parse_cancel req
           in (tr @ [VendorCall CancelSubscription data (Some subscriptionId)],
               api_cancel_subscription env data subscriptionId)))"

text \<open>\<open>cancel\<close> (lines 284-308): the result of the vendor call is logged, not inspected.\<close>

definition cancel :: "env \<Rightarrow> request \<Rightarrow> event list \<Rightarrow> event list \<times> (exn + artifact)" where
  "cancel env req tr =
     (case do_cancel_subscription env req tr of
        (tr1, Inl e) \<Rightarrow> (tr1, Inl e)
      | (tr1, Inr cancelled_subscription) \<Rightarrow>
          (tr1, template_or_skip env req ''suspendSubscriptionTemplate''))"

text \<open>\<open>_suspend_subscription\<close> (lines 383-409).\<close>

definition do_suspend_subscription ::
  "env \<Rightarrow> request \<Rightarrow> event list \<Rightarrow> event list \<times> (exn + pydict)" where
  "do_suspend_subscription env req tr =
     (case get_param_value req ''subscriptionId'' of
        Inl e \<Rightarrow> (tr, Inl e)
      | Inr subscriptionId \<Rightarrow>
          (let data = parse_suspend req
           in (tr @ [VendorCall SuspendSubscription data (Some subscriptionId)],
               api_suspend_subscription env data subscriptionId)))"

text \<open>\<open>suspend\<close> (lines 354-379).\<close>

definition suspend :: "env \<Rightarrow> request \<Rightarrow> event list \<Rightarrow> event list \<times> (exn + artifact)" where
  "suspend env req tr =
     (case do_suspend_subscription env req tr of
        (tr1, Inl e) \<Rightarrow> (tr1, Inl e)
      | (tr1, Inr suspended_subscription) \<Rightarrow>
          (tr1, template_or_skip env req ''suspendSubscriptionTemplate''))"

text \<open>\<open>_resume_subscription\<close> (lines 455-481).\<close>

definition do_resume_subscription ::
  "env \<Rightarrow> request \<Rightarrow> event list \<Rightarrow> event list \<times> (exn + pydict)" where
  "do_resume_subscription env req tr =
     (case get_param_value req ''subscriptionId'' of
        Inl e \<Rightarrow> (tr, Inl e)
      | Inr subscriptionId \<Rightarrow>
          (let data = parse_resume req
           in (tr @ [VendorCall ResumeSubscription data (Some subscriptionId)],
               api_resume_subscription env data subscriptionId)))"

text \<open>\<open>resume\<close> (lines 426-451).\<close>

definition resume :: "env \<Rightarrow> request \<Rightarrow> event list \<Rightarrow> event list \<times> (exn + artifact)" where
  "resume env req tr =
     (case do_resume_subscription env req tr of
        (tr1, Inl e) \<Rightarrow> (tr1, Inl e)
      | (tr1, Inr resumed_subscription) \<Rightarrow>
          (tr1, template_or_skip env req ''activationTemplate''))"

section \<open>Dispatcher\<close>

text \<open>
  \<open>process_request\<close> (lines 18-49). A handler's artifact is returned; with no matching
  type the function falls off its end and returns \<open>None\<close>. Both \<open>except\<close> clauses log
  and raise the same exception again.
\<close>

definition lift_result :: "event list \<times> (exn + artifact) \<Rightarrow> event list \<times> (exn + artifact option)" where
  "lift_result r = (case r of (tr, Inl e) \<Rightarrow> (tr, Inl e) | (tr, Inr a) \<Rightarrow> (tr, Inr (Some a)))"

definition process_request ::
  "env \<Rightarrow> request \<Rightarrow> event list \<Rightarrow> event list \<times> (exn + artifact option)" where
  "process_request env req tr =
     (if req_type req = ''purchase'' then lift_result (purchase env req tr)
      else if req_type req = ''change'' then lift_result (change env req tr)
      else if req_type req = ''suspend'' then lift_result (suspend env req tr)
      else if req_type req = ''resume'' then lift_result (resume env req tr)
      else if req_type req = ''cancel'' then lift_result (cancel env req tr)
      else (tr, Inr None))"

section \<open>Concrete collaborators and requests\<close>

text \<open>
  An environment whose vendor gateway answers every operation with \<open>result\<close>, whose
  status code is \<open>status\<close> and whose template lookup is \<open>templates\<close>; and a request of
  a given type with given line items that carries the stored \<open>subscriptionId\<close> \<open>S1\<close>.
\<close>

definition ex_env :: "pydict \<Rightarrow> string \<Rightarrow> (string \<Rightarrow> exn + pyval) \<Rightarrow> env" where
  "ex_env result status templates =
     \<lparr> api_create_subscription = (\<lambda>data. Inr result),
       api_change_subscription = (\<lambda>data sid. Inr result),
       api_cancel_subscription = (\<lambda>data sid. Inr result),
       api_suspend_subscription = (\<lambda>data sid. Inr result),
       api_resume_subscription = (\<lambda>data sid. Inr result),
       get_status_code = (\<lambda>r. status),
       get_activation_template = (\<lambda>cfg mp kind. templates kind),
       now = PStr ''2021-03-01T10:00:00'',
       ACTIVATING_TEMPLATE_ERROR = (\<lambda>s. ''Error activating template: '' @ s),
       EMPTY_ACTIVATION_TILE = (\<lambda>mp. ''No activation template for '' @ mp),
       NOT_ALLOWED_DOWNSIZE = ''not allowed downsize'',
       SKIP_ACTION = ''Skipping: '',
       FAIL_ACTION = ''Failing: '',
       py_str = (\<lambda>v. case v of PStr s \<Rightarrow> s | _ \<Rightarrow> ''<value>''),
       exn_str = (\<lambda>e. ''<exception>'') \<rparr>"

definition ex_templates :: "string \<Rightarrow> exn + pyval" where
  "ex_templates kind = Inr (PStr (''TL-'' @ kind))"

definition ex_req :: "string \<Rightarrow> item list \<Rightarrow> request" where
  "ex_req ty its =
     \<lparr> req_id = ''PR-1'', req_type = ty, marketplace_id = ''MP-1'',
       asset_configuration = [], asset_params = [(''subscriptionId'', PStr ''S1'')],
       asset_items = its \<rparr>"

text \<open>The vendor results of the scenarios.\<close>

definition unknown_error_result :: pydict where
  "unknown_error_result =
     [(''errors'', PList [PDict [(''errorCode'', PStr ''UNKNOWN_ERROR''),
                                 (''errorMessage'', PStr ''timeout'')]])]"

definition invalid_data_result :: pydict where
  "invalid_data_result =
     [(''errors'', PList [PDict [(''errorCode'', PStr ''INVALID_DATA''),
                                 (''errorMessage'', PStr ''bad address'')]])]"

definition raw_error_result :: pydict where
  "raw_error_result = [(''error'', PStr ''boom'')]"

text \<open>An error entry with a named code and no message, beside an empty \<open>tenantId\<close>.\<close>

definition named_error_no_message_result :: pydict where
  "named_error_no_message_result =
     [(''tenantId'', PStr []),
      (''errors'', PList [PDict [(''errorCode'', PStr ''INVALID_DATA'')]])]"

definition tenant_result :: pydict where
  "tenant_result = [(''tenantId'', PStr ''T1'')]"

text \<open>The same two error results with a \<open>tenantId\<close> field that is present and empty.\<close>

definition empty_tenant_unknown_result :: pydict where
  "empty_tenant_unknown_result = (''tenantId'', PStr []) # unknown_error_result"

definition empty_tenant_invalid_result :: pydict where
  "empty_tenant_invalid_result = (''tenantId'', PStr []) # invalid_data_result"

text \<open>
  Template lookups that go wrong: one raises \<open>FailRequest\<close>, one raises \<open>KeyError\<close>,
  one finds an empty id, one finds \<open>None\<close>.
\<close>

definition fail_templates :: "string \<Rightarrow> exn + pyval" where
  "fail_templates kind = Inl (FailRequest (PStr ''template lookup failed''))"

definition broken_templates :: "string \<Rightarrow> exn + pyval" where
  "broken_templates kind = Inl (KeyError (PStr ''MP-1''))"

definition empty_templates :: "string \<Rightarrow> exn + pyval" where
  "empty_templates kind = Inr (PStr [])"

definition missing_templates :: "string \<Rightarrow> exn + pyval" where
  "missing_templates kind = Inr PNone"

text \<open>Whether an outcome is a terminal failure.\<close>

definition raises_fail :: "exn + 'a \<Rightarrow> bool" where
  "raises_fail r = (case r of Inl (FailRequest m) \<Rightarrow> True | _ \<Rightarrow> False)"

section \<open>Facts about the closing try block\<close>

lemma template_or_skip_cases:
  "(\<exists>a. template_or_skip env req kind = Inr a) \<or>
   (\<exists>m. template_or_skip env req kind = Inl (SkipRequest m))"
  by (simp add: template_or_skip_def split: sum.split exn.split)

lemma template_or_skip_not_fail: "\<not> raises_fail (template_or_skip env req kind)"
  using template_or_skip_cases [of env req kind] by (auto simp: raises_fail_def)

lemma ex_template_or_skip:
  "template_or_skip (ex_env r st ex_templates) (ex_req ty its) kind =
     Inr (ActivationTemplateResponse (PStr (''TL-'' @ kind)))"
  by (simp add: template_or_skip_def activate_template_def ex_env_def ex_templates_def ex_req_def)

section \<open>The dispatcher on an unknown request type\<close>

text \<open>
  C10. A request whose type is none of purchase, change, suspend, resume and cancel runs
  no handler: the dispatcher returns \<open>None\<close>, raises nothing and leaves the trace of
  vendor calls and parameter updates as it was.
\<close>

theorem process_request_unknown_type:
  assumes "req_type req \<notin> {''purchase'', ''change'', ''suspend'', ''resume'', ''cancel''}"
  shows "process_request env req tr = (tr, Inr None)"
  using assms by (simp add: process_request_def)

theorem process_request_unknown_type_witness:
  "req_type (ex_req ''adjustment'' [])
     \<notin> {''purchase'', ''change'', ''suspend'', ''resume'', ''cancel''} \<and>
   process_request (ex_env unknown_error_result ''failed'' ex_templates)
     (ex_req ''adjustment'' []) [] = ([], Inr None)"
proof -
  have h: "req_type (ex_req ''adjustment'' [])
             \<notin> {''purchase'', ''change'', ''suspend'', ''resume'', ''cancel''}"
    by (simp add: ex_req_def)
  from process_request_unknown_type [OF h] h show ?thesis by simp
qed

section \<open>The downsize guard of change\<close>

text \<open>
  C5. When the downsize guard reports a downsize, \<open>change\<close> raises \<open>FailRequest\<close> with
  the fixed \<open>NOT_ALLOWED_DOWNSIZE\<close> message and the trace is unchanged: no vendor call
  (and no parameter update) happened before the failure. The dispatcher hands the same
  failure on for a request of type change.
\<close>

theorem change_downsize_fails_before_vendor_call:
  assumes "is_downsize_request (asset_items req)"
  shows "change env req tr = (tr, Inl (FailRequest (PStr (NOT_ALLOWED_DOWNSIZE env)))) \<and>
         (req_type req = ''change'' \<longrightarrow>
            process_request env req tr =
              (tr, Inl (FailRequest (PStr (NOT_ALLOWED_DOWNSIZE env)))))"
  using assms
  by (simp add: change_def check_if_downsize_def process_request_def lift_result_def)

theorem change_downsize_fails_before_vendor_call_witness:
  "is_downsize_request (asset_items (ex_req ''change'' [\<lparr>quantity = 3, old_quantity = 5\<rparr>])) \<and>
   process_request (ex_env [] ''success'' ex_templates)
     (ex_req ''change'' [\<lparr>quantity = 3, old_quantity = 5\<rparr>]) [] =
     ([], Inl (FailRequest (PStr ''not allowed downsize'')))"
proof -
  have h: "is_downsize_request (asset_items (ex_req ''change'' [\<lparr>quantity = 3, old_quantity = 5\<rparr>]))"
    by (simp add: ex_req_def is_downsize_request_def)
  have t: "req_type (ex_req ''change'' [\<lparr>quantity = 3, old_quantity = 5\<rparr>]) = ''change''"
    by (simp add: ex_req_def)
  from change_downsize_fails_before_vendor_call
         [OF h, of "ex_env [] ''success'' ex_templates" "[]"] h t
  show ?thesis by (simp add: ex_env_def)
qed

section \<open>The outcome check of change on success\<close>

text \<open>
  C8. When the status code of the vendor's result, lowercased, is \<open>success\<close>, the outcome
  check calls \<open>update_parameters\<close> with \<open>creationDate\<close> set to the current time and
  raises nothing. In the handler (no downsize, stored subscription id, the vendor call
  returning that result) the trace is the vendor call followed by this update, and the
  handler goes on to resolve the artifact.
\<close>

theorem check_update_response_success:
  assumes "py_lower (get_status_code env r) = ''success''"
  shows "check_update_response env r req tr =
           (tr @ [UpdateParameters (req_id req) [(''creationDate'', now env)]], Inr ()) \<and>
         (\<not> is_downsize_request (asset_items req) \<longrightarrow>
          get_param_value req ''subscriptionId'' = Inr sid \<longrightarrow>
          api_change_subscription env (parse_subscription req) sid = Inr r \<longrightarrow>
            change env req tr =
              (tr @ [VendorCall ChangeSubscription (parse_subscription req) (Some sid),
                     UpdateParameters (req_id req) [(''creationDate'', now env)]],
               template_or_skip env req ''activationTemplate''))"
  using assms
  by (simp add: check_update_response_def update_parameters_def change_def
      check_if_downsize_def do_change_subscription_def)

theorem check_update_response_success_witness:
  "py_lower (get_status_code (ex_env [] ''SUCCESS'' ex_templates) []) = ''success'' \<and>
   change (ex_env [] ''SUCCESS'' ex_templates) (ex_req ''change'' [\<lparr>quantity = 5, old_quantity = 3\<rparr>]) [] =
     ([VendorCall ChangeSubscription [] (Some (PStr ''S1'')),
       UpdateParameters ''PR-1'' [(''creationDate'', PStr ''2021-03-01T10:00:00'')]],
      Inr (ActivationTemplateResponse (PStr ''TL-activationTemplate'')))"
proof -
  have h: "py_lower (get_status_code (ex_env [] ''SUCCESS'' ex_templates) []) = ''success''"
    by (simp add: ex_env_def py_lower_def lower_char_def)
  have d: "\<not> is_downsize_request (asset_items (ex_req ''change'' [\<lparr>quantity = 5, old_quantity = 3\<rparr>]))"
    by (simp add: ex_req_def is_downsize_request_def)
  have p: "get_param_value (ex_req ''change'' [\<lparr>quantity = 5, old_quantity = 3\<rparr>]) ''subscriptionId''
             = Inr (PStr ''S1'')"
    by (simp add: get_param_value_def ex_req_def)
  have v: "api_change_subscription (ex_env [] ''SUCCESS'' ex_templates)
             (parse_subscription (ex_req ''change'' [\<lparr>quantity = 5, old_quantity = 3\<rparr>])) (PStr ''S1'') = Inr []"
    by (simp add: ex_env_def)
  have n: "now (ex_env [] ''SUCCESS'' ex_templates) = PStr ''2021-03-01T10:00:00''"
    by (simp add: ex_env_def)
  have i: "req_id (ex_req ''change'' [\<lparr>quantity = 5, old_quantity = 3\<rparr>]) = ''PR-1''"
    by (simp add: ex_req_def)
  from check_update_response_success
         [OF h, where req = "ex_req ''change'' [\<lparr>quantity = 5, old_quantity = 3\<rparr>]"
            and sid = "PStr ''S1''" and tr = "[]"]
       h d p v
  show ?thesis by (simp add: n i ex_template_or_skip parse_subscription_def)
qed

section \<open>Cancel and suspend resolve the same template kind\<close>

text \<open>
  C9. A cancel request and a suspend request whose vendor phase returned both go on to
  resolve the template of kind \<open>suspendSubscriptionTemplate\<close>: the outcome of either
  handler is what the closing try block gives for that one kind.
\<close>

theorem cancel_suspend_same_template_kind:
  assumes "do_cancel_subscription env creq ctr = (ctr1, Inr cres)"
    and "do_suspend_subscription env sreq str = (str1, Inr sres)"
  shows "cancel env creq ctr =
           (ctr1, template_or_skip env creq ''suspendSubscriptionTemplate'') \<and>
         suspend env sreq str =
           (str1, template_or_skip env sreq ''suspendSubscriptionTemplate'')"
  using assms by (simp add: cancel_def suspend_def)

theorem cancel_suspend_same_template_kind_witness:
  "do_cancel_subscription (ex_env [] ''success'' ex_templates) (ex_req ''cancel'' []) [] =
     ([VendorCall CancelSubscription [] (Some (PStr ''S1''))], Inr []) \<and>
   do_suspend_subscription (ex_env [] ''success'' ex_templates) (ex_req ''suspend'' []) [] =
     ([VendorCall SuspendSubscription [] (Some (PStr ''S1''))], Inr []) \<and>
   cancel (ex_env [] ''success'' ex_templates) (ex_req ''cancel'' []) [] =
     ([VendorCall CancelSubscription [] (Some (PStr ''S1''))],
      Inr (ActivationTemplateResponse (PStr ''TL-suspendSubscriptionTemplate''))) \<and>
   suspend (ex_env [] ''success'' ex_templates) (ex_req ''suspend'' []) [] =
     ([VendorCall SuspendSubscription [] (Some (PStr ''S1''))],
      Inr (ActivationTemplateResponse (PStr ''TL-suspendSubscriptionTemplate'')))"
proof -
  have c: "do_cancel_subscription (ex_env [] ''success'' ex_templates) (ex_req ''cancel'' []) [] =
             ([VendorCall CancelSubscription [] (Some (PStr ''S1''))], Inr [])"
    by (simp add: do_cancel_subscription_def get_param_value_def parse_cancel_def
        ex_env_def ex_req_def)
  have s: "do_suspend_subscription (ex_env [] ''success'' ex_templates) (ex_req ''suspend'' []) [] =
             ([VendorCall SuspendSubscription [] (Some (PStr ''S1''))], Inr [])"
    by (simp add: do_suspend_subscription_def get_param_value_def parse_suspend_def
        ex_env_def ex_req_def)
  from cancel_suspend_same_template_kind [OF c s] c s
  show ?thesis by (simp add: ex_template_or_skip)
qed

section \<open>Cancel with a vendor error\<close>

text \<open>
  C1. The cancel request of Scenario C: the vendor returns an \<open>errors\<close> list whose first
  entry has \<open>errorCode\<close> \<open>UNKNOWN_ERROR\<close> and \<open>errorMessage\<close> \<open>timeout\<close>. The handler
  logs the result without inspecting it, so the dispatcher returns the artifact of the
  \<open>suspendSubscriptionTemplate\<close> kind and raises nothing.
\<close>

theorem cancel_approves_despite_unknown_error:
  "process_request (ex_env unknown_error_result ''failed'' ex_templates) (ex_req ''cancel'' []) [] =
     ([VendorCall CancelSubscription [] (Some (PStr ''S1''))],
      Inr (Some (ActivationTemplateResponse (PStr ''TL-suspendSubscriptionTemplate''))))"
  by (simp add: process_request_def lift_result_def cancel_def do_cancel_subscription_def
      get_param_value_def parse_cancel_def template_or_skip_def activate_template_def
      ex_env_def ex_templates_def ex_req_def)

section \<open>Purchase with a tenant id\<close>

text \<open>
  C7, as the claim states it, fails. The vendor's create call returns \<open>tenantId\<close>
  \<open>T1\<close> and the template id configured for the \<open>activationTemplate\<close> kind is empty:
  the purchase handler persists \<open>subscriptionId\<close> \<open>T1\<close> and then raises
  \<open>SkipRequest\<close> (lines 505-508); no artifact is returned.
\<close>

theorem purchase_with_empty_template_id_is_skip:
  "api_create_subscription (ex_env tenant_result ''success'' empty_templates)
     (parse_subscription (ex_req ''purchase'' [])) = Inr tenant_result \<and>
   py_getitem tenant_result ''tenantId'' = Inr (PStr ''T1'') \<and>
   truthy (PStr ''T1'') \<and>
   purchase (ex_env tenant_result ''success'' empty_templates) (ex_req ''purchase'' []) [] =
     ([VendorCall CreateSubscription [] None,
       UpdateParameters ''PR-1'' [(''subscriptionId'', PStr ''T1'')]],
      Inl (SkipRequest (PStr ''No activation template for MP-1'')))"
  by (simp add: purchase_def do_create_subscription_def update_parameters_def
      template_or_skip_def activate_template_def py_getitem_def parse_subscription_def
      ex_env_def ex_req_def tenant_result_def empty_templates_def)

text \<open>
  C7, amended. When the vendor's create call returns a result whose \<open>tenantId\<close> is
  non-empty, the purchase handler calls \<open>update_parameters\<close> with \<open>subscriptionId\<close>
  set to that tenant id, right after the vendor call, and then resolves the template of
  kind \<open>activationTemplate\<close>. It returns the artifact with the configured template id
  when that id is not empty; when the id is empty it raises \<open>SkipRequest\<close> with the
  empty-template message, after the parameter has been persisted.
\<close>

theorem purchase_persists_subscription_id:
  assumes "api_create_subscription env (parse_subscription req) = Inr info"
    and "py_getitem info ''tenantId'' = Inr tenant"
    and "truthy tenant"
  shows "purchase env req tr =
           (tr @ [VendorCall CreateSubscription (parse_subscription req) None,
                  UpdateParameters (req_id req) [(''subscriptionId'', tenant)]],
            template_or_skip env req ''activationTemplate'') \<and>
         (get_activation_template env (asset_configuration req) (marketplace_id req)
            ''activationTemplate'' = Inr tid \<longrightarrow> py_len tid = Inr n \<longrightarrow> 0 < n \<longrightarrow>
            purchase env req tr =
              (tr @ [VendorCall CreateSubscription (parse_subscription req) None,
                     UpdateParameters (req_id req) [(''subscriptionId'', tenant)]],
               Inr (ActivationTemplateResponse tid))) \<and>
         (get_activation_template env (asset_configuration req) (marketplace_id req)
            ''activationTemplate'' = Inr tid \<longrightarrow> py_len tid = Inr 0 \<longrightarrow>
            purchase env req tr =
              (tr @ [VendorCall CreateSubscription (parse_subscription req) None,
                     UpdateParameters (req_id req) [(''subscriptionId'', tenant)]],
               Inl (SkipRequest (PStr (EMPTY_ACTIVATION_TILE env (marketplace_id req))))))"
  using assms
  by (simp add: purchase_def do_create_subscription_def update_parameters_def
      template_or_skip_def activate_template_def)

theorem purchase_persists_subscription_id_witness:
  "api_create_subscription (ex_env tenant_result ''success'' ex_templates)
     (parse_subscription (ex_req ''purchase'' [])) = Inr tenant_result \<and>
   py_getitem tenant_result ''tenantId'' = Inr (PStr ''T1'') \<and>
   truthy (PStr ''T1'') \<and>
   py_len (PStr ''TL-activationTemplate'') = Inr 21 \<and>
   purchase (ex_env tenant_result ''success'' ex_templates) (ex_req ''purchase'' []) [] =
     ([VendorCall CreateSubscription [] None,
       UpdateParameters ''PR-1'' [(''subscriptionId'', PStr ''T1'')]],
      Inr (ActivationTemplateResponse (PStr ''TL-activationTemplate''))) \<and>
   py_len (PStr []) = Inr 0 \<and>
   purchase (ex_env tenant_result ''success'' empty_templates) (ex_req ''purchase'' []) [] =
     ([VendorCall CreateSubscription [] None,
       UpdateParameters ''PR-1'' [(''subscriptionId'', PStr ''T1'')]],
      Inl (SkipRequest (PStr ''No activation template for MP-1'')))"
proof -
  let ?req = "ex_req ''purchase'' []"
  have a: "api_create_subscription (ex_env tenant_result ''success'' ex_templates)
             (parse_subscription ?req) = Inr tenant_result"
    by (simp add: ex_env_def)
  have a': "api_create_subscription (ex_env tenant_result ''success'' empty_templates)
              (parse_subscription ?req) = Inr tenant_result"
    by (simp add: ex_env_def)
  have g: "py_getitem tenant_result ''tenantId'' = Inr (PStr ''T1'')"
    by (simp add: py_getitem_def tenant_result_def)
  have t: "truthy (PStr ''T1'')"
    by simp
  have i: "req_id ?req = ''PR-1''" and mp: "marketplace_id ?req = ''MP-1''"
    by (simp_all add: ex_req_def)
  have k: "get_activation_template (ex_env tenant_result ''success'' ex_templates)
             (asset_configuration ?req) (marketplace_id ?req) ''activationTemplate''
             = Inr (PStr ''TL-activationTemplate'')"
    by (simp add: ex_env_def ex_templates_def)
  have l: "py_len (PStr ''TL-activationTemplate'') = Inr 21"
    by simp
  have k': "get_activation_template (ex_env tenant_result ''success'' empty_templates)
              (asset_configuration ?req) (marketplace_id ?req) ''activationTemplate''
              = Inr (PStr [])"
    by (simp add: ex_env_def empty_templates_def)
  have l': "py_len (PStr []) = Inr 0"
    by simp
  have e: "EMPTY_ACTIVATION_TILE (ex_env tenant_result ''success'' empty_templates) ''MP-1''
             = ''No activation template for MP-1''"
    by (simp add: ex_env_def)
  from purchase_persists_subscription_id
         [OF a g t, where tr = "[]" and tid = "PStr ''TL-activationTemplate''" and n = 21]
       k l
  have g1: "purchase (ex_env tenant_result ''success'' ex_templates) ?req [] =
              ([VendorCall CreateSubscription [] None,
                UpdateParameters ''PR-1'' [(''subscriptionId'', PStr ''T1'')]],
               Inr (ActivationTemplateResponse (PStr ''TL-activationTemplate'')))"
    by (simp add: i parse_subscription_def ex_template_or_skip)
  have ts: "template_or_skip (ex_env tenant_result ''success'' empty_templates) ?req
              ''activationTemplate'' = Inl (SkipRequest (PStr ''No activation template for MP-1''))"
    by (simp add: template_or_skip_def activate_template_def ex_env_def ex_req_def
        empty_templates_def)
  from purchase_persists_subscription_id
         [OF a' g t, where tr = "[]" and tid = "PStr []"]
       k' l'
  have g2: "purchase (ex_env tenant_result ''success'' empty_templates) ?req [] =
              ([VendorCall CreateSubscription [] None,
                UpdateParameters ''PR-1'' [(''subscriptionId'', PStr ''T1'')]],
               Inl (SkipRequest (PStr ''No activation template for MP-1'')))"
    by (simp add: i mp e ts parse_subscription_def)
  from a g t l g1 l' g2 show ?thesis by blast
qed

section \<open>A vendor result with a bare error field\<close>

text \<open>
  C2, as the claim states it, fails: on a result that has only an \<open>error\<close> field (and a
  status code other than success) the outcome check of change raises a plain
  \<open>Exception\<close>, which is not a \<open>FailRequest\<close>.
\<close>

theorem raw_error_is_not_fail_request:
  "py_lower (get_status_code (ex_env raw_error_result ''failed'' ex_templates) raw_error_result)
     \<noteq> ''success'' \<and>
   \<not> py_contains ''errors'' raw_error_result \<and>
   py_getitem raw_error_result ''error'' = Inr (PStr ''boom'') \<and>
   check_update_response (ex_env raw_error_result ''failed'' ex_templates) raw_error_result
     (ex_req ''change'' []) [] = ([], Inl (PyException (PStr ''boom''))) \<and>
   check_update_response (ex_env raw_error_result ''failed'' ex_templates) raw_error_result
     (ex_req ''change'' []) [] \<noteq> ([], Inl (FailRequest (PStr ''boom'')))"
  by (simp add: check_update_response_def ex_env_def raw_error_result_def py_lower_def
      lower_char_def py_contains_def py_getitem_def)

text \<open>
  C2, amended. For a vendor result whose lowercased status code is not \<open>success\<close>, that
  has no \<open>errors\<close> key and has an \<open>error\<close> key, the outcome check of change raises a
  plain \<open>Exception\<close> carrying the raw value of that field. Neither
  \<open>_change_subscription\<close> nor \<open>change\<close> nor the dispatcher catches it: a change request
  (no downsize, stored subscription id) whose vendor call returns such a result leaves
  the dispatcher with that same exception, after the one vendor call.
\<close>

theorem raw_error_raises_plain_exception:
  assumes "py_lower (get_status_code env r) \<noteq> ''success''"
    and "\<not> py_contains ''errors'' r"
    and "py_getitem r ''error'' = Inr v"
  shows "check_update_response env r req tr = (tr, Inl (PyException v)) \<and>
         (\<not> is_downsize_request (asset_items req) \<longrightarrow>
          get_param_value req ''subscriptionId'' = Inr sid \<longrightarrow>
          api_change_subscription env (parse_subscription req) sid = Inr r \<longrightarrow>
          req_type req = ''change'' \<longrightarrow>
            process_request env req tr =
              (tr @ [VendorCall ChangeSubscription (parse_subscription req) (Some sid)],
               Inl (PyException v)))"
proof -
  have k: "py_contains ''error'' r"
    using assms(3) by (simp add: py_contains_def py_getitem_def split: option.splits)
  have a: "check_update_response env r req t = (t, Inl (PyException v))" for t
    using assms k by (simp add: check_update_response_def)
  show ?thesis
    by (simp add: a process_request_def lift_result_def change_def check_if_downsize_def
        do_change_subscription_def)
qed

theorem raw_error_raises_plain_exception_witness:
  "py_lower (get_status_code (ex_env raw_error_result ''failed'' ex_templates) raw_error_result)
     \<noteq> ''success'' \<and>
   \<not> py_contains ''errors'' raw_error_result \<and>
   py_getitem raw_error_result ''error'' = Inr (PStr ''boom'') \<and>
   process_request (ex_env raw_error_result ''failed'' ex_templates) (ex_req ''change'' []) [] =
     ([VendorCall ChangeSubscription [] (Some (PStr ''S1''))], Inl (PyException (PStr ''boom'')))"
proof -
  have h1: "py_lower (get_status_code (ex_env raw_error_result ''failed'' ex_templates)
              raw_error_result) \<noteq> ''success''"
    by (simp add: ex_env_def py_lower_def lower_char_def)
  have h2: "\<not> py_contains ''errors'' raw_error_result"
    by (simp add: py_contains_def raw_error_result_def)
  have h3: "py_getitem raw_error_result ''error'' = Inr (PStr ''boom'')"
    by (simp add: py_getitem_def raw_error_result_def)
  have d: "\<not> is_downsize_request (asset_items (ex_req ''change'' []))"
    by (simp add: ex_req_def is_downsize_request_def)
  have p: "get_param_value (ex_req ''change'' []) ''subscriptionId'' = Inr (PStr ''S1'')"
    by (simp add: get_param_value_def ex_req_def)
  have v: "api_change_subscription (ex_env raw_error_result ''failed'' ex_templates)
             (parse_subscription (ex_req ''change'' [])) (PStr ''S1'') = Inr raw_error_result"
    by (simp add: ex_env_def)
  have t: "req_type (ex_req ''change'' []) = ''change''"
    by (simp add: ex_req_def)
  from raw_error_raises_plain_exception
         [OF h1 h2 h3, where req = "ex_req ''change'' []" and sid = "PStr ''S1''" and tr = "[]"]
       h1 h2 h3 d p v t
  show ?thesis by (simp add: parse_subscription_def)
qed

section \<open>Failures of artifact resolution\<close>

text \<open>
  C6. Once the vendor phase of a handler has returned, the handler's outcome is what its
  closing try block gives, and that is never a \<open>FailRequest\<close>: a \<open>FailRequest\<close> raised
  while the artifact is resolved becomes a \<open>SkipRequest\<close> with the template-error
  message built from the failure's message; any exception other than \<open>SkipRequest\<close> and
  \<open>FailRequest\<close> becomes a \<open>SkipRequest\<close> with the template-error message built from
  the exception's text; an empty template id is a \<open>SkipRequest\<close> with the
  empty-template message for the marketplace; a missing one (\<open>None\<close>) makes \<open>len\<close>
  raise \<open>TypeError\<close>, which is such another exception. This holds for purchase, change,
  suspend, resume and cancel.
\<close>

theorem resolution_failure_is_skip:
  "\<not> raises_fail (template_or_skip env req kind) \<and>
   (activate_template env req kind = Inl (FailRequest fm) \<longrightarrow>
      template_or_skip env req kind =
        Inl (SkipRequest (PStr (ACTIVATING_TEMPLATE_ERROR env (py_str env fm))))) \<and>
   (activate_template env req kind = Inl ex \<longrightarrow>
    (\<forall>m. ex \<noteq> SkipRequest m) \<longrightarrow> (\<forall>m. ex \<noteq> FailRequest m) \<longrightarrow>
      template_or_skip env req kind =
        Inl (SkipRequest (PStr (ACTIVATING_TEMPLATE_ERROR env (exn_str env ex))))) \<and>
   (get_activation_template env (asset_configuration req) (marketplace_id req) kind = Inr tid \<longrightarrow>
    py_len tid = Inr 0 \<longrightarrow>
      template_or_skip env req kind =
        Inl (SkipRequest (PStr (EMPTY_ACTIVATION_TILE env (marketplace_id req))))) \<and>
   (get_activation_template env (asset_configuration req) (marketplace_id req) kind = Inr PNone \<longrightarrow>
      template_or_skip env req kind =
        Inl (SkipRequest (PStr (ACTIVATING_TEMPLATE_ERROR env (exn_str env TypeError))))) \<and>
   (do_create_subscription env req tr = (tr1, Inr info) \<longrightarrow>
      purchase env req tr = (tr1, template_or_skip env req ''activationTemplate'')) \<and>
   (check_if_downsize env req = Inr () \<longrightarrow>
    do_change_subscription env req tr = (tr1, Inr ()) \<longrightarrow>
      change env req tr = (tr1, template_or_skip env req ''activationTemplate'')) \<and>
   (do_suspend_subscription env req tr = (tr1, Inr info) \<longrightarrow>
      suspend env req tr = (tr1, template_or_skip env req ''suspendSubscriptionTemplate'')) \<and>
   (do_resume_subscription env req tr = (tr1, Inr info) \<longrightarrow>
      resume env req tr = (tr1, template_or_skip env req ''activationTemplate'')) \<and>
   (do_cancel_subscription env req tr = (tr1, Inr info) \<longrightarrow>
      cancel env req tr = (tr1, template_or_skip env req ''suspendSubscriptionTemplate''))"
proof -
  have a: "\<not> raises_fail (template_or_skip env req kind)"
    by (rule template_or_skip_not_fail)
  have b: "activate_template env req kind = Inl (FailRequest fm) \<longrightarrow>
      template_or_skip env req kind =
        Inl (SkipRequest (PStr (ACTIVATING_TEMPLATE_ERROR env (py_str env fm))))"
    by (simp add: template_or_skip_def)
  have c: "activate_template env req kind = Inl ex \<longrightarrow>
    (\<forall>m. ex \<noteq> SkipRequest m) \<longrightarrow> (\<forall>m. ex \<noteq> FailRequest m) \<longrightarrow>
      template_or_skip env req kind =
        Inl (SkipRequest (PStr (ACTIVATING_TEMPLATE_ERROR env (exn_str env ex))))"
    by (cases ex) (simp_all add: template_or_skip_def)
  have d: "get_activation_template env (asset_configuration req) (marketplace_id req) kind = Inr tid \<longrightarrow>
    py_len tid = Inr 0 \<longrightarrow>
      template_or_skip env req kind =
        Inl (SkipRequest (PStr (EMPTY_ACTIVATION_TILE env (marketplace_id req))))"
    by (simp add: template_or_skip_def activate_template_def)
  have e: "get_activation_template env (asset_configuration req) (marketplace_id req) kind = Inr PNone \<longrightarrow>
      template_or_skip env req kind =
        Inl (SkipRequest (PStr (ACTIVATING_TEMPLATE_ERROR env (exn_str env TypeError))))"
    by (simp add: template_or_skip_def activate_template_def)
  have p: "do_create_subscription env req tr = (tr1, Inr info) \<longrightarrow>
      purchase env req tr = (tr1, template_or_skip env req ''activationTemplate'')"
    by (simp add: purchase_def)
  have ch: "check_if_downsize env req = Inr () \<longrightarrow>
    do_change_subscription env req tr = (tr1, Inr ()) \<longrightarrow>
      change env req tr = (tr1, template_or_skip env req ''activationTemplate'')"
    by (simp add: change_def)
  have s: "do_suspend_subscription env req tr = (tr1, Inr info) \<longrightarrow>
      suspend env req tr = (tr1, template_or_skip env req ''suspendSubscriptionTemplate'')"
    by (simp add: suspend_def)
  have r: "do_resume_subscription env req tr = (tr1, Inr info) \<longrightarrow>
      resume env req tr = (tr1, template_or_skip env req ''activationTemplate'')"
    by (simp add: resume_def)
  have ca: "do_cancel_subscription env req tr = (tr1, Inr info) \<longrightarrow>
      cancel env req tr = (tr1, template_or_skip env req ''suspendSubscriptionTemplate'')"
    by (simp add: cancel_def)
  from a b c d e p ch s r ca show ?thesis by blast
qed

theorem resolution_failure_is_skip_witness:
  "do_create_subscription (ex_env tenant_result ''success'' fail_templates)
     (ex_req ''purchase'' []) [] =
     ([VendorCall CreateSubscription [] None,
       UpdateParameters ''PR-1'' [(''subscriptionId'', PStr ''T1'')]], Inr tenant_result) \<and>
   activate_template (ex_env tenant_result ''success'' fail_templates) (ex_req ''purchase'' [])
     ''activationTemplate'' = Inl (FailRequest (PStr ''template lookup failed'')) \<and>
   purchase (ex_env tenant_result ''success'' fail_templates) (ex_req ''purchase'' []) [] =
     ([VendorCall CreateSubscription [] None,
       UpdateParameters ''PR-1'' [(''subscriptionId'', PStr ''T1'')]],
      Inl (SkipRequest (PStr ''Error activating template: template lookup failed''))) \<and>
   activate_template (ex_env tenant_result ''success'' broken_templates) (ex_req ''purchase'' [])
     ''activationTemplate'' = Inl (KeyError (PStr ''MP-1'')) \<and>
   template_or_skip (ex_env tenant_result ''success'' broken_templates) (ex_req ''purchase'' [])
     ''activationTemplate'' = Inl (SkipRequest (PStr ''Error activating template: <exception>'')) \<and>
   py_len (PStr []) = Inr 0 \<and>
   template_or_skip (ex_env tenant_result ''success'' empty_templates) (ex_req ''purchase'' [])
     ''activationTemplate'' = Inl (SkipRequest (PStr ''No activation template for MP-1'')) \<and>
   template_or_skip (ex_env tenant_result ''success'' missing_templates) (ex_req ''purchase'' [])
     ''activationTemplate'' = Inl (SkipRequest (PStr ''Error activating template: <exception>''))"
proof -
  let ?req = "ex_req ''purchase'' []"
  let ?tr1 = "[VendorCall CreateSubscription [] None,
               UpdateParameters ''PR-1'' [(''subscriptionId'', PStr ''T1'')]]"
  have v: "do_create_subscription (ex_env tenant_result ''success'' fail_templates) ?req [] =
             (?tr1, Inr tenant_result)"
    by (simp add: do_create_subscription_def ex_env_def ex_req_def tenant_result_def
        py_getitem_def parse_subscription_def update_parameters_def)
  have f: "activate_template (ex_env tenant_result ''success'' fail_templates) ?req
             ''activationTemplate'' = Inl (FailRequest (PStr ''template lookup failed''))"
    by (simp add: activate_template_def ex_env_def fail_templates_def)
  have k: "activate_template (ex_env tenant_result ''success'' broken_templates) ?req
             ''activationTemplate'' = Inl (KeyError (PStr ''MP-1''))"
    by (simp add: activate_template_def ex_env_def broken_templates_def)
  have e: "get_activation_template (ex_env tenant_result ''success'' empty_templates)
             (asset_configuration ?req) (marketplace_id ?req) ''activationTemplate'' = Inr (PStr [])"
    by (simp add: ex_env_def empty_templates_def)
  have l: "py_len (PStr []) = Inr 0"
    by simp
  have n: "get_activation_template (ex_env tenant_result ''success'' missing_templates)
             (asset_configuration ?req) (marketplace_id ?req) ''activationTemplate'' = Inr PNone"
    by (simp add: ex_env_def missing_templates_def)
  from resolution_failure_is_skip
         [where env = "ex_env tenant_result ''success'' fail_templates" and req = ?req
            and kind = "''activationTemplate''" and fm = "PStr ''template lookup failed''"
            and tr = "[]" and ?tr1.0 = ?tr1 and info = tenant_result]
       v f
  have g1: "purchase (ex_env tenant_result ''success'' fail_templates) ?req [] =
              (?tr1, Inl (SkipRequest (PStr ''Error activating template: template lookup failed'')))"
    by (simp add: ex_env_def)
  from resolution_failure_is_skip
         [where env = "ex_env tenant_result ''success'' broken_templates" and req = ?req
            and kind = "''activationTemplate''" and ex = "KeyError (PStr ''MP-1'')"]
       k
  have g2: "template_or_skip (ex_env tenant_result ''success'' broken_templates) ?req
              ''activationTemplate'' =
              Inl (SkipRequest (PStr ''Error activating template: <exception>''))"
    by (simp add: ex_env_def)
  from resolution_failure_is_skip
         [where env = "ex_env tenant_result ''success'' empty_templates" and req = ?req
            and kind = "''activationTemplate''" and tid = "PStr []"]
       e l
  have g3: "template_or_skip (ex_env tenant_result ''success'' empty_templates) ?req
              ''activationTemplate'' = Inl (SkipRequest (PStr ''No activation template for MP-1''))"
    by (simp add: ex_env_def ex_req_def)
  from resolution_failure_is_skip
         [where env = "ex_env tenant_result ''success'' missing_templates" and req = ?req
            and kind = "''activationTemplate''"]
       n
  have g4: "template_or_skip (ex_env tenant_result ''success'' missing_templates) ?req
              ''activationTemplate'' =
              Inl (SkipRequest (PStr ''Error activating template: <exception>''))"
    by (simp add: ex_env_def)
  from v f g1 k g2 l g3 g4 show ?thesis by blast
qed

section \<open>Unknown error codes\<close>

text \<open>
  What the two checks do once they read the \<open>errors\<close> list. Let its first entry have an
  \<open>errorCode\<close> that is absent (\<open>.get\<close> gives \<open>None\<close>) or \<open>UNKNOWN_ERROR\<close>. The
  outcome check of change, on a status code other than success, raises \<open>SkipRequest\<close>
  built from that entry's \<open>errorMessage\<close>. The create check does the same when the
  result has a \<open>tenantId\<close> field whose value is empty and the message is a string (the
  message is appended to a log prefix before the raise).
\<close>

lemma unknown_error_is_skip:
  assumes "py_getitem r ''errors'' = Inr errs"
    and "py_index0 errs = Inr entry"
    and "py_get entry ''errorCode'' = Inr code"
    and "code = PNone \<or> code = PStr ''UNKNOWN_ERROR''"
    and "py_get entry ''errorMessage'' = Inr msg"
  shows "(py_lower (get_status_code env r) \<noteq> ''success'' \<longrightarrow>
            check_update_response env r req tr = (tr, Inl (skip_request msg))) \<and>
         (api_create_subscription env (parse_subscription req) = Inr r \<longrightarrow>
          py_getitem r ''tenantId'' = Inr tenant \<longrightarrow> \<not> truthy tenant \<longrightarrow> msg = PStr m \<longrightarrow>
            do_create_subscription env req tr =
              (tr @ [VendorCall CreateSubscription (parse_subscription req) None],
               Inl (skip_request msg)))"
proof -
  have k: "py_contains ''errors'' r"
    using assms(1) by (simp add: py_contains_def py_getitem_def split: option.splits)
  have u: "update_error_branch env r = skip_request msg"
    using assms by (auto simp add: update_error_branch_def)
  have c: "msg = PStr m \<longrightarrow> create_error_branch env r = skip_request msg"
    using assms by (auto simp add: create_error_branch_def)
  show ?thesis
    using k u c by (simp add: check_update_response_def do_create_subscription_def)
qed

lemma unknown_error_is_skip_example:
  "check_update_response (ex_env empty_tenant_unknown_result ''failed'' ex_templates)
     empty_tenant_unknown_result (ex_req ''change'' []) [] =
     ([], Inl (SkipRequest (PStr ''timeout''))) \<and>
   do_create_subscription (ex_env empty_tenant_unknown_result ''failed'' ex_templates)
     (ex_req ''purchase'' []) [] =
     ([VendorCall CreateSubscription [] None], Inl (SkipRequest (PStr ''timeout'')))"
proof -
  let ?entry = "PDict [(''errorCode'', PStr ''UNKNOWN_ERROR''), (''errorMessage'', PStr ''timeout'')]"
  let ?env = "ex_env empty_tenant_unknown_result ''failed'' ex_templates"
  have h1: "py_getitem empty_tenant_unknown_result ''errors'' = Inr (PList [?entry])"
    by (simp add: py_getitem_def empty_tenant_unknown_result_def unknown_error_result_def)
  have h2: "py_index0 (PList [?entry]) = Inr ?entry"
    by simp
  have h3: "py_get ?entry ''errorCode'' = Inr (PStr ''UNKNOWN_ERROR'')"
    by simp
  have h4: "PStr ''UNKNOWN_ERROR'' = PNone \<or> PStr ''UNKNOWN_ERROR'' = PStr ''UNKNOWN_ERROR''"
    by simp
  have h5: "py_get ?entry ''errorMessage'' = Inr (PStr ''timeout'')"
    by simp
  have s: "py_lower (get_status_code ?env empty_tenant_unknown_result) \<noteq> ''success''"
    by (simp add: ex_env_def py_lower_def lower_char_def)
  have a: "api_create_subscription ?env (parse_subscription (ex_req ''purchase'' []))
             = Inr empty_tenant_unknown_result"
    by (simp add: ex_env_def)
  have t: "py_getitem empty_tenant_unknown_result ''tenantId'' = Inr (PStr [])"
    by (simp add: py_getitem_def empty_tenant_unknown_result_def)
  have n: "\<not> truthy (PStr [])"
    by simp
  from unknown_error_is_skip
         [OF h1 h2 h3 h4 h5, where env = ?env and req = "ex_req ''change'' []" and tr = "[]"]
       s
  have g1: "check_update_response ?env empty_tenant_unknown_result (ex_req ''change'' []) [] =
              ([], Inl (SkipRequest (PStr ''timeout'')))"
    by (simp add: skip_request_def)
  from unknown_error_is_skip
         [OF h1 h2 h3 h4 h5, where env = ?env and req = "ex_req ''purchase'' []" and tr = "[]"
            and tenant = "PStr []" and m = "''timeout''"]
       a t n
  have g2: "do_create_subscription ?env (ex_req ''purchase'' []) [] =
              ([VendorCall CreateSubscription [] None], Inl (SkipRequest (PStr ''timeout'')))"
    by (simp add: parse_subscription_def skip_request_def)
  from g1 g2 show ?thesis by blast
qed

text \<open>
  C3. A vendor result with no success indicator whose first error entry has the code
  \<open>UNKNOWN_ERROR\<close> and the message \<open>timeout\<close> should give \<open>SkipRequest\<close> with
  \<open>timeout\<close> in the create check as in the update check. On the result of
  Scenario C, which has no \<open>tenantId\<close> field, the update check does so, while
  \<open>_create_subscription\<close> subscripts the result with \<open>tenantId\<close> (line 109) before it
  looks at \<open>errors\<close> and raises \<open>KeyError\<close>; purchase and the dispatcher hand that
  \<open>KeyError\<close> on.
\<close>

theorem create_unknown_error_without_tenant_is_key_error:
  "py_getitem unknown_error_result ''tenantId'' = Inl (KeyError (PStr ''tenantId'')) \<and>
   py_getitem unknown_error_result ''errors'' =
     Inr (PList [PDict [(''errorCode'', PStr ''UNKNOWN_ERROR''),
                        (''errorMessage'', PStr ''timeout'')]]) \<and>
   check_update_response (ex_env unknown_error_result ''failed'' ex_templates)
     unknown_error_result (ex_req ''change'' []) [] =
     ([], Inl (SkipRequest (PStr ''timeout''))) \<and>
   do_create_subscription (ex_env unknown_error_result ''failed'' ex_templates)
     (ex_req ''purchase'' []) [] =
     ([VendorCall CreateSubscription [] None], Inl (KeyError (PStr ''tenantId''))) \<and>
   process_request (ex_env unknown_error_result ''failed'' ex_templates)
     (ex_req ''purchase'' []) [] =
     ([VendorCall CreateSubscription [] None], Inl (KeyError (PStr ''tenantId'')))"
  by (simp add: process_request_def lift_result_def purchase_def do_create_subscription_def
      check_update_response_def update_error_branch_def skip_request_def py_contains_def
      py_lower_def lower_char_def ex_env_def ex_req_def unknown_error_result_def
      py_getitem_def parse_subscription_def)

section \<open>Named error codes\<close>

text \<open>
  What the two checks do once they read the \<open>errors\<close> list. Let its first entry have an
  \<open>errorCode\<close> that is present (\<open>.get\<close> does not give \<open>None\<close>) and is not
  \<open>UNKNOWN_ERROR\<close>. The create check raises \<open>FailRequest\<close> built from that entry's
  \<open>errorMessage\<close> when the result has a \<open>tenantId\<close> field whose value is empty. The
  outcome check of change, on a status code other than success, does the same when the
  message is a string (the message is appended to a log prefix before the raise).
\<close>

lemma named_error_is_fail:
  assumes "py_getitem r ''errors'' = Inr errs"
    and "py_index0 errs = Inr entry"
    and "py_get entry ''errorCode'' = Inr code"
    and "code \<noteq> PNone"
    and "code \<noteq> PStr ''UNKNOWN_ERROR''"
    and "py_get entry ''errorMessage'' = Inr msg"
  shows "(py_lower (get_status_code env r) \<noteq> ''success'' \<longrightarrow> msg = PStr m \<longrightarrow>
            check_update_response env r req tr = (tr, Inl (fail_request msg))) \<and>
         (api_create_subscription env (parse_subscription req) = Inr r \<longrightarrow>
          py_getitem r ''tenantId'' = Inr tenant \<longrightarrow> \<not> truthy tenant \<longrightarrow>
            do_create_subscription env req tr =
              (tr @ [VendorCall CreateSubscription (parse_subscription req) None],
               Inl (fail_request msg)))"
proof -
  have k: "py_contains ''errors'' r"
    using assms(1) by (simp add: py_contains_def py_getitem_def split: option.splits)
  have u: "msg = PStr m \<longrightarrow> update_error_branch env r = fail_request msg"
    using assms by (auto simp add: update_error_branch_def)
  have c: "create_error_branch env r = fail_request msg"
    using assms by (auto simp add: create_error_branch_def)
  show ?thesis
    using k u c by (simp add: check_update_response_def do_create_subscription_def)
qed

lemma named_error_is_fail_example:
  "check_update_response (ex_env empty_tenant_invalid_result ''failed'' ex_templates)
     empty_tenant_invalid_result (ex_req ''change'' []) [] =
     ([], Inl (FailRequest (PStr ''bad address''))) \<and>
   do_create_subscription (ex_env empty_tenant_invalid_result ''failed'' ex_templates)
     (ex_req ''purchase'' []) [] =
     ([VendorCall CreateSubscription [] None], Inl (FailRequest (PStr ''bad address'')))"
proof -
  let ?entry = "PDict [(''errorCode'', PStr ''INVALID_DATA''), (''errorMessage'', PStr ''bad address'')]"
  let ?env = "ex_env empty_tenant_invalid_result ''failed'' ex_templates"
  have h1: "py_getitem empty_tenant_invalid_result ''errors'' = Inr (PList [?entry])"
    by (simp add: py_getitem_def empty_tenant_invalid_result_def invalid_data_result_def)
  have h2: "py_index0 (PList [?entry]) = Inr ?entry"
    by simp
  have h3: "py_get ?entry ''errorCode'' = Inr (PStr ''INVALID_DATA'')"
    by simp
  have h4: "PStr ''INVALID_DATA'' \<noteq> PNone"
    by simp
  have h5: "PStr ''INVALID_DATA'' \<noteq> PStr ''UNKNOWN_ERROR''"
    by simp
  have h6: "py_get ?entry ''errorMessage'' = Inr (PStr ''bad address'')"
    by simp
  have s: "py_lower (get_status_code ?env empty_tenant_invalid_result) \<noteq> ''success''"
    by (simp add: ex_env_def py_lower_def lower_char_def)
  have a: "api_create_subscription ?env (parse_subscription (ex_req ''purchase'' []))
             = Inr empty_tenant_invalid_result"
    by (simp add: ex_env_def)
  have t: "py_getitem empty_tenant_invalid_result ''tenantId'' = Inr (PStr [])"
    by (simp add: py_getitem_def empty_tenant_invalid_result_def)
  have n: "\<not> truthy (PStr [])"
    by simp
  from named_error_is_fail
         [OF h1 h2 h3 h4 h5 h6, where env = ?env and req = "ex_req ''change'' []" and tr = "[]"
            and m = "''bad address''"]
       s
  have g1: "check_update_response ?env empty_tenant_invalid_result (ex_req ''change'' []) [] =
              ([], Inl (FailRequest (PStr ''bad address'')))"
    by (simp add: fail_request_def)
  from named_error_is_fail
         [OF h1 h2 h3 h4 h5 h6, where env = ?env and req = "ex_req ''purchase'' []" and tr = "[]"
            and tenant = "PStr []"]
       a t n
  have g2: "do_create_subscription ?env (ex_req ''purchase'' []) [] =
              ([VendorCall CreateSubscription [] None], Inl (FailRequest (PStr ''bad address'')))"
    by (simp add: parse_subscription_def fail_request_def)
  from g1 g2 show ?thesis by blast
qed

text \<open>
  C4. A vendor result with no success indicator whose first error entry has a named code
  should give \<open>FailRequest\<close> with that entry's message in the create check as in the
  update check. The code misses this twice. On a result with the entry
  (\<open>INVALID_DATA\<close>, \<open>bad address\<close>) and no \<open>tenantId\<close> field the update check raises
  \<open>FailRequest\<close> with \<open>bad address\<close>, while \<open>_create_subscription\<close> raises
  \<open>KeyError\<close> at line 109, which purchase and the dispatcher hand on. On a result
  whose entry has the code \<open>INVALID_DATA\<close> and no message (beside an empty
  \<open>tenantId\<close>) the create check raises \<open>FailRequest\<close> with the default text, while the
  update check appends the missing message to a log prefix (line 272) and raises
  \<open>TypeError\<close>.
\<close>

theorem create_named_error_without_tenant_is_key_error:
  "py_getitem invalid_data_result ''tenantId'' = Inl (KeyError (PStr ''tenantId'')) \<and>
   py_getitem invalid_data_result ''errors'' =
     Inr (PList [PDict [(''errorCode'', PStr ''INVALID_DATA''),
                        (''errorMessage'', PStr ''bad address'')]]) \<and>
   check_update_response (ex_env invalid_data_result ''failed'' ex_templates)
     invalid_data_result (ex_req ''change'' []) [] =
     ([], Inl (FailRequest (PStr ''bad address''))) \<and>
   do_create_subscription (ex_env invalid_data_result ''failed'' ex_templates)
     (ex_req ''purchase'' []) [] =
     ([VendorCall CreateSubscription [] None], Inl (KeyError (PStr ''tenantId''))) \<and>
   process_request (ex_env invalid_data_result ''failed'' ex_templates)
     (ex_req ''purchase'' []) [] =
     ([VendorCall CreateSubscription [] None], Inl (KeyError (PStr ''tenantId''))) \<and>
   do_create_subscription (ex_env named_error_no_message_result ''failed'' ex_templates)
     (ex_req ''purchase'' []) [] =
     ([VendorCall CreateSubscription [] None], Inl (FailRequest (PStr ''Request failed''))) \<and>
   check_update_response (ex_env named_error_no_message_result ''failed'' ex_templates)
     named_error_no_message_result (ex_req ''change'' []) [] = ([], Inl TypeError)"
  by (simp add: process_request_def lift_result_def purchase_def do_create_subscription_def
      check_update_response_def update_error_branch_def create_error_branch_def
      fail_request_def py_contains_def py_lower_def lower_char_def ex_env_def ex_req_def
      invalid_data_result_def named_error_no_message_result_def py_getitem_def
      parse_subscription_def)

end
